theory Spec2Isabelle
  imports Complex_Main "HOL-Library.Sublist"
begin

section \<open>Background-task guard (livewire-daz/server/core/tool_handler.py)\<close>

text \<open>
  The module keeps one global, \<^verbatim>\<open>background_task\<close>, holding either \<^verbatim>\<open>None\<close> or a handle
  to an asyncio task.  Task objects live on the event loop and are shared between the
  global and the loop, so they are kept in an explicit store: a list of task records, a
  handle being the index of the task in it.  All the code below runs on the event loop,
  one piece at a time.
\<close>

record task =
  task_query :: string
  task_session :: nat
  task_done :: bool
  task_cancel_requested :: bool

record guard_state =
  background_task :: "nat option"
  tasks :: "task list"
  agent_stop_event :: bool
  turns :: "(nat \<times> string) list"

text \<open>The dictionaries returned by \<^verbatim>\<open>execute_tool\<close>: \<^verbatim>\<open>{"status": .., "summary": ..}\<close>,
  \<^verbatim>\<open>{"error": ..}\<close>, or the JSON body of a cloud function.\<close>

datatype tool_result = Status string string | Error string | Json string

definition initial_guard :: guard_state where
  "initial_guard =
     \<lparr>background_task = None, tasks = [], agent_stop_event = False, turns = []\<rparr>"

text \<open>\<^verbatim>\<open>background_task and not background_task.done()\<close>\<close>

definition slot_busy :: "guard_state \<Rightarrow> bool" where
  "slot_busy s =
     (case background_task s of
        None \<Rightarrow> False
      | Some h \<Rightarrow> h < length (tasks s) \<and> \<not> task_done (tasks s ! h))"

definition CLOUD_FUNCTIONS :: "string list" where
  "CLOUD_FUNCTIONS =
     [''get_weather'', ''get_weather_forecast'', ''get_next_appointment'',
      ''get_past_appointments'']"

text \<open>
  \<^verbatim>\<open>asyncio.create_task\<close> puts a fresh task, not done, into the store and returns its
  handle; \<^verbatim>\<open>Task.cancel\<close> records the request on the task.
\<close>

definition create_task :: "string \<Rightarrow> nat \<Rightarrow> guard_state \<Rightarrow> nat \<times> guard_state" where
  "create_task query sess s =
     (length (tasks s),
      s\<lparr>tasks := tasks s @
           [\<lparr>task_query = query, task_session = sess, task_done = False,
             task_cancel_requested = False\<rparr>]\<rparr>)"

definition cancel :: "nat \<Rightarrow> guard_state \<Rightarrow> guard_state" where
  "cancel h s = s\<lparr>tasks := (tasks s)[h := (tasks s ! h)\<lparr>task_cancel_requested := True\<rparr>]\<rparr>"

text \<open>
  \<^verbatim>\<open>execute_tool(tool_name, params, genai_session)\<close>.  \<open>params\<close> is the dictionary of the
  call as an association list, \<open>genai_session\<close> the optional conversation.  The HTTP
  exchange with a cloud function (lines 97 to 131) is the parameter \<open>cloud\<close>; it does
  not touch the guard.
\<close>

definition execute_tool ::
  "(string \<Rightarrow> (string \<times> string) list \<Rightarrow> tool_result) \<Rightarrow> string \<Rightarrow>
   (string \<times> string) list \<Rightarrow> nat option \<Rightarrow> guard_state \<Rightarrow> tool_result \<times> guard_state"
where
  "execute_tool cloud tool_name params genai_session s =
    (if tool_name = ''stop_computer_task'' then
       (if slot_busy s then
          (Status ''success'' ''Stop signal sent.'',
           cancel (the (background_task s)) (s\<lparr>agent_stop_event := True\<rparr>))
        else (Status ''no_task'' ''No task is running.'', s))
     else if tool_name = ''execute_computer_task'' then
       (if slot_busy s then (Status ''already_running'' ''A task is in progress.'', s)
        else
          (case map_of params ''query'' of
             None \<Rightarrow> (Error ''Missing query'', s)
           | Some query \<Rightarrow>
               if query = [] then (Error ''Missing query'', s)
               else
                 (case genai_session of
                    None \<Rightarrow> (Error ''Missing session'', s)
                  | Some sess \<Rightarrow>
                      (let (h, s') = create_task query sess s
                       in (Status ''started''
                             (''Task '' @ [CHR 0x27] @ query @ [CHR 0x27] @ '' has started.''),
                           s'\<lparr>background_task := Some h\<rparr>)))))
     else if tool_name \<notin> set CLOUD_FUNCTIONS then (Error (''Unknown tool: '' @ tool_name), s)
     else (cloud tool_name params, s))"

text \<open>
  What \<^verbatim>\<open>await coro\<close> does in \<^verbatim>\<open>run_and_log_task\<close>: the executor future returns the
  dictionary of \<^verbatim>\<open>run_computer_agent_task\<close> (or \<^verbatim>\<open>None\<close>), the task is cancelled while it
  waits, or the future raises.  What \<^verbatim>\<open>await genai_session.send(..)\<close> does: it delivers
  the turn, the task is cancelled while it waits, or the call raises.
\<close>

datatype coro_outcome =
  Returned "(string \<times> string) list option" | CoroCancelled | CoroRaised

datatype send_outcome = SendOk | SendCancelled | SendFailed

datatype exc = CancelledError | OtherException

definition send_turn ::
  "nat \<Rightarrow> string \<Rightarrow> send_outcome \<Rightarrow> guard_state \<Rightarrow> exc option \<times> guard_state"
where
  "send_turn sess msg out s =
     (case out of
        SendOk \<Rightarrow> (None, s\<lparr>turns := turns s @ [(sess, msg)]\<rparr>)
      | SendCancelled \<Rightarrow> (Some CancelledError, s)
      | SendFailed \<Rightarrow> (Some OtherException, s))"

text \<open>The body of the \<^verbatim>\<open>try\<close> block (lines 41 to 49): the exception it raises, if any.\<close>

definition try_body ::
  "coro_outcome \<Rightarrow> nat \<Rightarrow> send_outcome \<Rightarrow> guard_state \<Rightarrow> exc option \<times> guard_state"
where
  "try_body coro genai_session send1 s =
     (case coro of
        CoroCancelled \<Rightarrow> (Some CancelledError, s)
      | CoroRaised \<Rightarrow> (Some OtherException, s)
      | Returned None \<Rightarrow> (None, s)
      | Returned (Some result) \<Rightarrow>
          if result \<noteq> [] \<and> map_of result ''status'' = Some ''success'' then
            send_turn genai_session
              (case map_of result ''summary'' of
                 None \<Rightarrow> ''The task is complete.'' | Some summary \<Rightarrow> summary)
              send1 s
          else (None, s))"

text \<open>
  \<^verbatim>\<open>run_and_log_task(coro, query, genai_session)\<close>: the \<^verbatim>\<open>try\<close> block, the two handlers and
  the \<^verbatim>\<open>finally\<close> clause.  \<open>send1\<close> is the outcome of the send inside the \<^verbatim>\<open>try\<close> block,
  \<open>send2\<close> the outcome of the send inside a handler.  The result is the exception that
  leaves the wrapper, if any, and the state after the \<^verbatim>\<open>finally\<close> clause.
\<close>

definition run_and_log_task ::
  "coro_outcome \<Rightarrow> string \<Rightarrow> nat \<Rightarrow> send_outcome \<Rightarrow> send_outcome \<Rightarrow> guard_state \<Rightarrow>
   exc option \<times> guard_state"
where
  "run_and_log_task coro query genai_session send1 send2 s =
     (let (raised, s1) = try_body coro genai_session send1 s;
          (escaped, s2) =
            (case raised of
               None \<Rightarrow> (None, s1)
             | Some CancelledError \<Rightarrow>
                 send_turn genai_session ''The task has been cancelled.'' send2 s1
             | Some OtherException \<Rightarrow>
                 send_turn genai_session ''An error occurred during the task.'' send2 s1)
      in (escaped, s2\<lparr>background_task := None\<rparr>))"

text \<open>
  The event loop, as far as the guard is concerned.  \<open>Call\<close> is one call of
  \<^verbatim>\<open>execute_tool\<close>.  \<open>Finish h ..\<close> runs the wrapper of the task \<open>h\<close> to its end, after
  which the task is done; a task runs its coroutine once, so a task that is done does
  not finish again.  The wrapper changes the global only in its \<^verbatim>\<open>finally\<close> clause, after
  its last wait, so a call of \<^verbatim>\<open>execute_tool\<close> that falls into one of its waits finds the
  global and the task as a call just before \<open>Finish\<close> does.  \<open>Dropped h\<close> is asyncio's treatment of a task whose cancellation
  was requested before its first step: the task becomes done without entering the body
  of its coroutine.  \<open>Runner_clears\<close> is \<^verbatim>\<open>run_computer_agent_task\<close>, on its executor
  thread, clearing the stop event: at the start of its \<^verbatim>\<open>try\<close> block and in its \<^verbatim>\<open>finally\<close>
  clause (\<^verbatim>\<open>runner.py\<close>, lines 36 and 83).
\<close>

datatype event =
    Call string "(string \<times> string) list" "nat option"
  | Finish nat coro_outcome send_outcome send_outcome
  | Dropped nat
  | Runner_clears

definition mark_done :: "nat \<Rightarrow> guard_state \<Rightarrow> guard_state" where
  "mark_done h s = s\<lparr>tasks := (tasks s)[h := (tasks s ! h)\<lparr>task_done := True\<rparr>]\<rparr>"

definition pending :: "nat \<Rightarrow> guard_state \<Rightarrow> bool" where
  "pending h s = (h < length (tasks s) \<and> \<not> task_done (tasks s ! h))"

fun guard_step ::
  "(string \<Rightarrow> (string \<times> string) list \<Rightarrow> tool_result) \<Rightarrow> guard_state \<Rightarrow> event \<Rightarrow> guard_state"
where
  "guard_step cloud s (Call tool_name params genai_session) =
     snd (execute_tool cloud tool_name params genai_session s)"
| "guard_step cloud s (Finish h coro send1 send2) =
     (if pending h s then
        mark_done h
          (snd (run_and_log_task coro (task_query (tasks s ! h)) (task_session (tasks s ! h))
                  send1 send2 s))
      else s)"
| "guard_step cloud s (Dropped h) =
     (if pending h s \<and> task_cancel_requested (tasks s ! h) then mark_done h s else s)"
| "guard_step cloud s Runner_clears = s\<lparr>agent_stop_event := False\<rparr>"

definition run_guard ::
  "(string \<Rightarrow> (string \<times> string) list \<Rightarrow> tool_result) \<Rightarrow> event list \<Rightarrow> guard_state"
where
  "run_guard cloud evs = foldl (guard_step cloud) initial_guard evs"

text \<open>The handles of the tasks that are not done.\<close>

definition unfinished :: "guard_state \<Rightarrow> nat list" where
  "unfinished s = filter (\<lambda>h. \<not> task_done (tasks s ! h)) [0 ..< length (tasks s)]"

text \<open>Every task that is not done is the one the global holds.\<close>

definition slot_inv :: "guard_state \<Rightarrow> bool" where
  "slot_inv s = (\<forall>h. pending h s \<longrightarrow> background_task s = Some h)"


text \<open>A state with one task in flight, held by the global.\<close>

definition one_running :: guard_state where
  "one_running =
     \<lparr>background_task = Some 0,
      tasks = [\<lparr>task_query = ''search for X'', task_session = 7, task_done = False,
                task_cancel_requested = False\<rparr>],
      agent_stop_event = False, turns = []\<rparr>"




section \<open>Live transcription and translation (chirp2-translator/app.py)\<close>

text \<open>
  A Python \<^verbatim>\<open>str\<close> is a sequence of Unicode code points; \<^verbatim>\<open>str.strip()\<close> and \<^verbatim>\<open>len\<close> work
  on code points.  Texts are therefore lists of code points; \<open>py\<close> reads an ASCII
  literal as such a text.  Audio chunks are \<^verbatim>\<open>bytes\<close>, lists of numbers as well.
\<close>

type_synonym py_str = "nat list"

definition py :: "string \<Rightarrow> py_str" where
  "py s = map of_char s"

text \<open>\<^verbatim>\<open>str.isspace\<close> on one code point: the white space of CPython's Unicode database.\<close>

definition isspace :: "nat \<Rightarrow> bool" where
  "isspace c =
     ((0x09 \<le> c \<and> c \<le> 0x0D) \<or> (0x1C \<le> c \<and> c \<le> 0x20) \<or> c = 0x85 \<or> c = 0xA0 \<or>
      c = 0x1680 \<or> (0x2000 \<le> c \<and> c \<le> 0x200A) \<or> c = 0x2028 \<or> c = 0x2029 \<or>
      c = 0x202F \<or> c = 0x205F \<or> c = 0x3000)"

definition strip :: "py_str \<Rightarrow> py_str" where
  "strip s = rev (dropWhile isspace (rev (dropWhile isspace s)))"

subsection \<open>GeminiTranslator.translate\<close>

text \<open>
  \<^verbatim>\<open>self.model.generate_content(prompt)\<close> followed by \<^verbatim>\<open>response.text\<close> is the parameter
  \<open>generate_content\<close>: the text of the response, or (\<open>Inl\<close>) the message of the exception
  raised on the way.  Beside its result, \<open>translate\<close> returns the prompts it has sent to
  the generative API, in order.
\<close>

definition translate ::
  "(py_str \<Rightarrow> py_str + py_str) \<Rightarrow> py_str \<Rightarrow> py_str \<Rightarrow> py_str \<times> py_str list"
where
  "translate generate_content text target_language =
     (if strip text = [] then ([], [])
      else
        (let prompt = py ''Translate the following text to '' @ target_language @
                      py ''. Only return the translation, nothing else:'' @ [10, 10] @ text
         in (case generate_content prompt of
               Inr response_text \<Rightarrow> strip response_text
             | Inl e \<Rightarrow> py ''[Translation error: '' @ e @ py '']'',
             [prompt])))"

subsection \<open>Sessions and the socket handlers\<close>

record session =
  active :: bool
  audio_queue :: "nat list list"
  audio_chunks :: "nat list list"
  original_text :: py_str
  translated_text :: py_str
  source_language :: py_str
  target_language :: py_str
  stream_active :: bool
  stream_thread :: "nat option"
  pending_audio :: "nat list list"
  show_timestamps :: bool
  tts_audio :: "nat list option"
  voice_gender :: py_str

text \<open>What the server emits to a client, and the worker threads it has started.  A
  session identifier is the \<^verbatim>\<open>sid\<close> of the connection, a string of letters, digits,
  \<^verbatim>\<open>-\<close> and \<^verbatim>\<open>_\<close>.\<close>

datatype emitted =
    Connected py_str
  | Session_started py_str py_str bool py_str
  | Interim py_str "real option"
  | Final py_str py_str real "real option"
  | Error_message py_str

record server =
  sessions :: "py_str \<rightharpoonup> session"
  emits :: "(py_str \<times> emitted) list"
  threads :: "py_str list"

definition handle_connect :: "py_str \<Rightarrow> server \<Rightarrow> server" where
  "handle_connect session_id sv =
     sv\<lparr>sessions := (sessions sv)(session_id \<mapsto>
            \<lparr>active = False, audio_queue = [], audio_chunks = [], original_text = [],
             translated_text = [], source_language = py ''en-US'',
             target_language = py ''Spanish'', stream_active = False, stream_thread = None,
             pending_audio = [], show_timestamps = False, tts_audio = None,
             voice_gender = py ''NEUTRAL''\<rparr>),
        emits := emits sv @ [(session_id, Connected session_id)]\<rparr>"

text \<open>The \<^verbatim>\<open>data\<close> of a \<^verbatim>\<open>start_session\<close> message: each key may be absent.\<close>

record start_data =
  d_source_language :: "py_str option"
  d_target_language :: "py_str option"
  d_show_timestamps :: "bool option"
  d_voice_gender :: "py_str option"

definition get_default :: "'a option \<Rightarrow> 'a \<Rightarrow> 'a" where
  "get_default v d = (case v of None \<Rightarrow> d | Some x \<Rightarrow> x)"

text \<open>
  \<^verbatim>\<open>handle_start_session(data)\<close>, for the connection \<open>session_id\<close>.  The handler runs as
  one step: the worker it starts takes nothing from the queue before the handler is
  through.  A session that does not exist makes \<^verbatim>\<open>sessions[session_id]\<close> raise a
  \<^verbatim>\<open>KeyError\<close>, and the \<^verbatim>\<open>except\<close> clause emits its text: the identifier between single
  quotes (code point 39).  A thread handle is the number of threads started before.
\<close>

definition handle_start_session :: "py_str \<Rightarrow> start_data \<Rightarrow> server \<Rightarrow> server" where
  "handle_start_session session_id data sv =
     (let source_language = get_default (d_source_language data) (py ''en-US'');
          target_language = get_default (d_target_language data) (py ''Spanish'');
          show_timestamps = get_default (d_show_timestamps data) False;
          voice_gender = get_default (d_voice_gender data) (py ''NEUTRAL'')
      in case sessions sv session_id of
           None \<Rightarrow>
             sv\<lparr>emits := emits sv @
                  [(session_id, Error_message ([39] @ session_id @ [39]))]\<rparr>
         | Some s \<Rightarrow>
             (let s1 = s\<lparr>active := True, source_language := source_language,
                        target_language := target_language,
                        show_timestamps := show_timestamps, voice_gender := voice_gender,
                        audio_queue := [], audio_chunks := [], original_text := [],
                        translated_text := [], stream_active := True, pending_audio := [],
                        tts_audio := None\<rparr>;
                  s2 = s1\<lparr>stream_thread := Some (length (threads sv))\<rparr>;
                  pending = pending_audio s2;
                  s3 = s2\<lparr>audio_queue := audio_queue s2 @ pending\<rparr>;
                  s4 = s3\<lparr>pending_audio := []\<rparr>
              in sv\<lparr>sessions := (sessions sv)(session_id \<mapsto> s4),
                    threads := threads sv @ [session_id],
                    emits := emits sv @
                      [(session_id,
                        Session_started source_language target_language show_timestamps
                          voice_gender)]\<rparr>))"

text \<open>
  \<^verbatim>\<open>handle_audio_data(data)\<close>: \<open>audio\<close> is \<^verbatim>\<open>base64.b64decode(data['audio'])\<close>, the decoded
  chunk, or \<open>Inl\<close> the message of the exception when the key is missing or the text is
  not base64.
\<close>

definition handle_audio_data :: "py_str \<Rightarrow> py_str + nat list \<Rightarrow> server \<Rightarrow> server" where
  "handle_audio_data session_id audio sv =
     (case sessions sv session_id of
        None \<Rightarrow> sv
      | Some s \<Rightarrow>
          (case audio of
             Inl e \<Rightarrow>
               sv\<lparr>emits := emits sv @
                    [(session_id, Error_message (py ''Audio processing error: '' @ e))]\<rparr>
           | Inr audio_bytes \<Rightarrow>
               (let s1 = s\<lparr>audio_chunks := audio_chunks s @ [audio_bytes]\<rparr>;
                    s2 = (if stream_active s1
                          then s1\<lparr>audio_queue := audio_queue s1 @ [audio_bytes]\<rparr>
                          else s1\<lparr>pending_audio := pending_audio s1 @ [audio_bytes]\<rparr>)
                in sv\<lparr>sessions := (sessions sv)(session_id \<mapsto> s2)\<rparr>)))"

definition initial_server :: server where
  "initial_server = \<lparr>sessions = Map.empty, emits = [], threads = []\<rparr>"

text \<open>The identifier of one connection.\<close>

definition client :: py_str where
  "client = py ''Zk3bXw1Q''"

subsection \<open>The worker: streaming_transcribe\<close>

record alternative =
  transcript :: py_str
  confidence :: real

record result =
  alternatives :: "alternative list"
  is_final :: bool
  result_end_offset :: "real option"

text \<open>
  What the worker meets while it iterates over the responses of the recognition stream:
  the next response with its results, an exception raised by the stream, or, between two
  responses, a handler of the connection setting \<^verbatim>\<open>stream_active\<close> to \<^verbatim>\<open>False\<close>
  (\<^verbatim>\<open>handle_stop_session\<close>, \<^verbatim>\<open>handle_disconnect\<close>).
\<close>

datatype worker_input = Response "result list" | Stream_raises py_str | Stop_requested

text \<open>The worker's view: the session record it holds and what it has emitted.\<close>

type_synonym worker_state = "session \<times> emitted list"

text \<open>The body of \<^verbatim>\<open>for result in response.results\<close> (lines 454 to 496), for one result.
  \<open>target\<close> and \<open>timestamps\<close> are the locals read from the session when the worker
  started.\<close>

definition process_result ::
  "(py_str \<Rightarrow> py_str + py_str) \<Rightarrow> py_str \<Rightarrow> bool \<Rightarrow> worker_state \<Rightarrow> result \<Rightarrow> worker_state"
where
  "process_result generate_content target timestamps w r =
     (case alternatives r of
        [] \<Rightarrow> w
      | a # _ \<Rightarrow>
          (let s = fst w;
               offset = (if timestamps then result_end_offset r else None)
           in if is_final r then
                (let s1 = s\<lparr>original_text := original_text s @ transcript a @ [32]\<rparr>;
                     translation = fst (translate generate_content (transcript a) target);
                     s2 = s1\<lparr>translated_text := translated_text s1 @ translation @ [32]\<rparr>
                 in (s2, snd w @ [Final (transcript a) translation (confidence a) offset]))
              else (s, snd w @ [Interim (transcript a) offset])))"

text \<open>The loop \<^verbatim>\<open>for response in responses\<close> with its \<^verbatim>\<open>break\<close>, and the \<^verbatim>\<open>except\<close> clause
  around it.\<close>

fun responses_loop ::
  "(py_str \<Rightarrow> py_str + py_str) \<Rightarrow> py_str \<Rightarrow> bool \<Rightarrow> worker_state \<Rightarrow> worker_input list \<Rightarrow>
   worker_state"
where
  "responses_loop generate_content target timestamps w [] = w"
| "responses_loop generate_content target timestamps w (Response results # rest) =
     (if \<not> stream_active (fst w) then w
      else responses_loop generate_content target timestamps
             (foldl (process_result generate_content target timestamps) w results) rest)"
| "responses_loop generate_content target timestamps w (Stream_raises e # rest) =
     (fst w, snd w @ [Error_message e])"
| "responses_loop generate_content target timestamps w (Stop_requested # rest) =
     responses_loop generate_content target timestamps
       ((fst w)\<lparr>stream_active := False\<rparr>, snd w) rest"

definition streaming_transcribe ::
  "(py_str \<Rightarrow> py_str + py_str) \<Rightarrow> session \<Rightarrow> worker_input list \<Rightarrow> worker_state"
where
  "streaming_transcribe generate_content s inputs =
     responses_loop generate_content (target_language s) (show_timestamps s) (s, []) inputs"

text \<open>
  The finalized segments the worker accepts from its inputs, in arrival order: the first
  alternative of every final result that has one, in the responses met while
  \<^verbatim>\<open>stream_active\<close> holds and before the stream raises.
\<close>

definition final_transcripts :: "result list \<Rightarrow> py_str list" where
  "final_transcripts results =
     map (\<lambda>r. transcript (hd (alternatives r)))
       (filter (\<lambda>r. alternatives r \<noteq> [] \<and> is_final r) results)"

fun finalized :: "bool \<Rightarrow> worker_input list \<Rightarrow> py_str list" where
  "finalized flag [] = []"
| "finalized flag (Response results # rest) =
     (if flag then final_transcripts results @ finalized flag rest else [])"
| "finalized flag (Stream_raises e # rest) = []"
| "finalized flag (Stop_requested # rest) = finalized False rest"

section \<open>Transcription tool (gemini-3-transcribe/gemini_transcribe_cli.py, app.py)\<close>

text \<open>
  Python computes the sizes, durations and costs below in binary floating point: IEEE
  754 doubles, each operation rounding its exact result to the nearest double, a tie
  going to the even significand.  A double is modelled by the real number it denotes.
  Infinities, NaN, the sign of zero and subnormal numbers are left out; the durations
  and amounts of money computed here stay far from them.  Token counts are Python
  integers.  A file size divided by \<open>2 ^ 20\<close> is exact in doubles and is kept as the
  exact quotient.
\<close>

subsection \<open>Doubles\<close>

text \<open>The nearest integer, a tie going to the even one.\<close>

definition round_half_even :: "real \<Rightarrow> int" where
  "round_half_even y =
     (let f = \<lfloor>y\<rfloor>; d = y - of_int f
      in if d < 1 / 2 then f else if 1 / 2 < d then f + 1 else if even f then f else f + 1)"

definition pow2 :: "int \<Rightarrow> real" where
  "pow2 e = (if 0 \<le> e then 2 ^ nat e else 1 / 2 ^ nat (- e))"

text \<open>The number of binary digits of a natural number.\<close>

fun bits :: "nat \<Rightarrow> nat" where
  "bits n = (if n = 0 then 0 else Suc (bits (n div 2)))"

declare bits.simps [simp del]

text \<open>For \<open>0 < x\<close>, the exponent \<open>e\<close> with \<open>2 ^ e \<le> x < 2 ^ (e + 1)\<close>.\<close>

definition ilog2 :: "real \<Rightarrow> int" where
  "ilog2 x =
     (if 1 \<le> x then int (bits (nat \<lfloor>x\<rfloor>)) - 1
      else - int (bits (nat (\<lceil>1 / x\<rceil> - 1))))"

text \<open>The double nearest to a real number: a significand of 53 binary digits.\<close>

definition dbl :: "real \<Rightarrow> real" where
  "dbl x =
     (if x = 0 then 0
      else (let e = ilog2 \<bar>x\<bar> - 52
            in sgn x * of_int (round_half_even (\<bar>x\<bar> / pow2 e)) * pow2 e))"

definition fadd :: "real \<Rightarrow> real \<Rightarrow> real" where
  "fadd x y = dbl (x + y)"

definition fmul :: "real \<Rightarrow> real \<Rightarrow> real" where
  "fmul x y = dbl (x * y)"

definition fdiv :: "real \<Rightarrow> real \<Rightarrow> real" where
  "fdiv x y = dbl (x / y)"

text \<open>Python's \<^verbatim>\<open>round(x, ndigits)\<close> on a double: the exact value of \<open>x\<close> is rounded to
  \<open>ndigits\<close> decimals, a tie going to the even digit, and the decimal result is read
  back as a double.\<close>

definition py_round :: "real \<Rightarrow> nat \<Rightarrow> real" where
  "py_round x ndigits = dbl (of_int (round_half_even (x * 10 ^ ndigits)) / 10 ^ ndigits)"

subsection \<open>Constants and the price table\<close>

definition SUPPORTED_FORMATS :: "string list" where
  "SUPPORTED_FORMATS = [''.mp3'', ''.wav'', ''.aac'', ''.flac'', ''.m4a'', ''.ogg'', ''.aiff'']"

definition MAX_FILE_SIZE_MB :: real where
  "MAX_FILE_SIZE_MB = 100"

definition WEB_INLINE_LIMIT_MB :: real where
  "WEB_INLINE_LIMIT_MB = 20"

record model_info =
  info_name :: string
  max_output_tokens :: nat
  price_input_per_1k :: real
  price_output_per_1k :: real
  price_audio_per_second :: real

text \<open>The prices are the doubles that the decimal literals of the source denote.\<close>

definition AVAILABLE_MODELS :: "(string \<times> model_info) list" where
  "AVAILABLE_MODELS =
     [(''gemini-2.5-flash'',
       \<lparr>info_name = ''Gemini 2.5 Flash'', max_output_tokens = 65536,
        price_input_per_1k = dbl (75 / 1000000), price_output_per_1k = dbl (3 / 10000),
        price_audio_per_second = dbl (15 / 1000000)\<rparr>),
      (''gemini-2.5-pro'',
       \<lparr>info_name = ''Gemini 2.5 Pro'', max_output_tokens = 65536,
        price_input_per_1k = dbl (125 / 100000), price_output_per_1k = dbl (5 / 1000),
        price_audio_per_second = dbl (25 / 100000)\<rparr>),
      (''gemini-3-pro-preview'',
       \<lparr>info_name = ''Gemini 3 Pro Preview'', max_output_tokens = 65536,
        price_input_per_1k = dbl (25 / 100000), price_output_per_1k = dbl (5 / 10000),
        price_audio_per_second = dbl (625 / 1000000)\<rparr>)]"

definition DEFAULT_MODEL :: string where
  "DEFAULT_MODEL = ''gemini-2.5-flash''"

text \<open>\<^verbatim>\<open>AVAILABLE_MODELS.get(model_name, AVAILABLE_MODELS[DEFAULT_MODEL])\<close>; the default is
  the first entry of the table.\<close>

definition lookup_model :: "string \<Rightarrow> model_info" where
  "lookup_model model_name =
     (case map_of AVAILABLE_MODELS model_name of
        Some info \<Rightarrow> info
      | None \<Rightarrow> snd (hd AVAILABLE_MODELS))"

subsection \<open>estimate_cost\<close>

record usage =
  usage_model :: string
  input_tokens :: int
  output_tokens :: int
  audio_seconds :: real
  text_input_cost :: real
  output_cost :: real
  audio_cost :: real
  total_cost :: real

definition estimate_cost :: "string \<Rightarrow> int \<Rightarrow> int \<Rightarrow> real \<Rightarrow> usage" where
  "estimate_cost model_name input_toks output_toks audio_secs =
     (let info = lookup_model model_name;
          text_in = fmul (fdiv (real_of_int input_toks) 1000) (price_input_per_1k info);
          out = fmul (fdiv (real_of_int output_toks) 1000) (price_output_per_1k info);
          audio = fmul audio_secs (price_audio_per_second info);
          sum_cost = fadd (fadd text_in out) audio
      in \<lparr>usage_model = model_name, input_tokens = input_toks, output_tokens = output_toks,
          audio_seconds = audio_secs, text_input_cost = text_in, output_cost = out,
          audio_cost = audio, total_cost = sum_cost\<rparr>)"

subsection \<open>Files and the generative API\<close>

text \<open>A file on disk: stem and suffix of its name, its bytes, and the duration pydub
  reads from it (\<open>None\<close> when pydub fails).\<close>

record media_file =
  f_stem :: py_str
  f_suffix :: string
  f_bytes :: "nat list"
  f_duration_ms :: "nat option"

text \<open>\<^verbatim>\<open>path.stat().st_size / (1024 * 1024)\<close> and \<^verbatim>\<open>os.path.getsize(..) / (1024 * 1024)\<close>\<close>

definition file_size_mb :: "media_file \<Rightarrow> real" where
  "file_size_mb f = real (length (f_bytes f)) / (1024 * 1024)"

text \<open>\<^verbatim>\<open>validate_file\<close>, for a path that exists and is a file; the suffix is compared in
  lower case, which \<open>f_suffix\<close> is taken to be.\<close>

definition validate_file :: "media_file \<Rightarrow> py_str + real" where
  "validate_file f =
     (if f_suffix f \<notin> set SUPPORTED_FORMATS
      then Inl (py ''Unsupported format. Supported: .mp3, .wav, .aac, .flac, .m4a, .ogg, .aiff'')
      else Inr (file_size_mb f))"

definition get_audio_duration_seconds :: "media_file \<Rightarrow> real" where
  "get_audio_duration_seconds f =
     (case f_duration_ms f of None \<Rightarrow> 0 | Some ms \<Rightarrow> fdiv (real ms) 1000)"

text \<open>What is handed to the model beside the prompt: the bytes themselves with a MIME
  type, or the handle of an uploaded file.\<close>

datatype audio_content = Inline_data string "nat list" | Uploaded_file nat

definition process_inline :: "media_file \<Rightarrow> audio_content" where
  "process_inline f =
     Inline_data
       (case map_of
               [(''.mp3'', ''audio/mp3''), (''.wav'', ''audio/wav''), (''.aac'', ''audio/aac''),
                (''.flac'', ''audio/flac''), (''.m4a'', ''audio/mp4''), (''.ogg'', ''audio/ogg''),
                (''.aiff'', ''audio/aiff'')] (f_suffix f) of
          None \<Rightarrow> ''audio/mp3'' | Some mime_type \<Rightarrow> mime_type)
       (f_bytes f)"

text \<open>
  Reading an attribute of a response object: it is absent (\<^verbatim>\<open>hasattr\<close> is false,
  \<^verbatim>\<open>getattr\<close> with a default gives the default), reading it raises some other exception,
  or it has a value.
\<close>

datatype 'a attr = Missing | Raising | Has 'a

record response =
  response_text :: py_str
  usage_metadata :: "int attr attr"

text \<open>One call of \<^verbatim>\<open>generate_content\<close>: model, system instruction, prompt, audio part and
  generation configuration.\<close>

record gen_call =
  g_model :: string
  g_system_instruction :: "py_str option"
  g_prompt :: py_str
  g_audio :: "audio_content option"
  g_temperature :: real
  g_max_output_tokens :: nat

text \<open>
  The world outside one request.  \<open>Inl\<close> is the message of a raised exception.
  \<open>w_count_tokens\<close> is \<^verbatim>\<open>AudioTranscriber.count_tokens\<close>, which turns a failure into 0.
  \<open>w_upload\<close> is \<^verbatim>\<open>genai.upload_file\<close>: a handle and the states that the file then
  reports, one for each look at it.
\<close>

datatype file_state = PROCESSING | ACTIVE | FAILED

record world =
  API_KEY :: "string option"
  w_download :: "py_str \<Rightarrow> py_str + media_file"
  w_api_enabled :: "string \<Rightarrow> py_str + bool"
  w_count_tokens :: "string \<Rightarrow> py_str \<Rightarrow> audio_content option \<Rightarrow> int"
  w_upload :: "media_file \<Rightarrow> py_str + nat \<times> file_state list"
  w_generate :: "gen_call \<Rightarrow> py_str + response"

subsection \<open>AudioTranscriber\<close>

record transcriber =
  model_name :: string
  model_info :: model_info
  last_usage :: "usage option"

definition AudioTranscriber_init :: "string \<Rightarrow> transcriber" where
  "AudioTranscriber_init requested =
     (let model_name = (if requested \<notin> fst ` set AVAILABLE_MODELS then DEFAULT_MODEL
                        else requested)
      in \<lparr>model_name = model_name, model_info = lookup_model model_name, last_usage = None\<rparr>)"

text \<open>The loop of \<^verbatim>\<open>upload_file\<close> that waits while the state is \<^verbatim>\<open>PROCESSING\<close>.  The states
  are those the service reports; when they run out on \<^verbatim>\<open>PROCESSING\<close> the loop has not
  ended, which is \<open>None\<close>.\<close>

fun wait_for_file :: "file_state list \<Rightarrow> file_state option" where
  "wait_for_file [] = None"
| "wait_for_file (PROCESSING # later) = wait_for_file later"
| "wait_for_file (state # later) = Some state"

definition state_name :: "file_state \<Rightarrow> string" where
  "state_name state =
     (case state of PROCESSING \<Rightarrow> ''PROCESSING'' | ACTIVE \<Rightarrow> ''ACTIVE'' | FAILED \<Rightarrow> ''FAILED'')"

definition upload_file :: "world \<Rightarrow> media_file \<Rightarrow> (py_str + audio_content) option" where
  "upload_file w f =
     (case w_upload w f of
        Inl e \<Rightarrow> Some (Inl e)
      | Inr (handle, states) \<Rightarrow>
          (case wait_for_file states of
             None \<Rightarrow> None
           | Some ACTIVE \<Rightarrow> Some (Inr (Uploaded_file handle))
           | Some state \<Rightarrow>
               Some (Inl (py ''File upload failed with state: '' @ py (state_name state)))))"

text \<open>
  Lines 317 to 326 of \<^verbatim>\<open>transcribe\<close> and, word for word, lines 362 to 370 of
  \<^verbatim>\<open>summarize\<close>: the output token count taken from a response.
\<close>

definition extract_output_tokens :: "response \<Rightarrow> int" where
  "extract_output_tokens r =
     (case usage_metadata r of
        Missing \<Rightarrow> 0
      | Raising \<Rightarrow> int (length (response_text r)) div 4
      | Has candidates_token_count \<Rightarrow>
          (case candidates_token_count of
             Missing \<Rightarrow> 0
           | Raising \<Rightarrow> int (length (response_text r)) div 4
           | Has n \<Rightarrow> n))"

definition truthy :: "py_str option \<Rightarrow> bool" where
  "truthy v = (case v of None \<Rightarrow> False | Some s \<Rightarrow> s \<noteq> [])"

definition transcription_prompt :: "bool \<Rightarrow> py_str option \<Rightarrow> py_str option \<Rightarrow> py_str" where
  "transcription_prompt use_timestamps start_time end_time =
     (if use_timestamps \<and> truthy start_time \<and> truthy end_time then
        py ''Provide a complete and full transcript of the speech from '' @ the start_time @
        py '' to '' @ the end_time @
        py ''. Do not truncate or summarize - include every word spoken.''
      else
        py ''Generate a complete and full transcript of the speech. '' @ [10] @
        py ''Important instructions:'' @ [10] @
        py ''- Include ALL spoken content from the ENTIRE audio file'' @ [10] @
        py ''- Do not truncate, summarize, or stop early'' @ [10] @
        py ''- Transcribe every word from beginning to end'' @ [10] @
        py ''- If the audio is long, continue transcribing until the very end'')"

text \<open>\<^verbatim>\<open>AudioTranscriber.transcribe\<close>: the text of the response and the transcriber with
  \<^verbatim>\<open>last_usage\<close> set, or the exception of the generation call.\<close>

definition AudioTranscriber_transcribe ::
  "world \<Rightarrow> transcriber \<Rightarrow> audio_content \<Rightarrow> py_str option \<Rightarrow> bool \<Rightarrow> py_str option \<Rightarrow>
   py_str option \<Rightarrow> real \<Rightarrow> py_str + py_str \<times> transcriber"
where
  "AudioTranscriber_transcribe w t content system_instruction use_timestamps start_time
     end_time audio_duration_seconds =
     (let prompt = transcription_prompt use_timestamps start_time end_time;
          input_toks = w_count_tokens w (model_name t) prompt (Some content)
      in case w_generate w
                \<lparr>g_model = model_name t,
                 g_system_instruction =
                   (if truthy system_instruction then system_instruction else None),
                 g_prompt = prompt, g_audio = Some content, g_temperature = dbl (1 / 10),
                 g_max_output_tokens = max_output_tokens (model_info t)\<rparr> of
           Inl e \<Rightarrow> Inl e
         | Inr r \<Rightarrow>
             Inr (response_text r,
                  t\<lparr>last_usage :=
                      Some (estimate_cost (model_name t) input_toks (extract_output_tokens r)
                              audio_duration_seconds)\<rparr>))"

definition summary_prompt :: "py_str \<Rightarrow> py_str" where
  "summary_prompt text =
     py ''Please provide a concise summary of the following text.'' @ [10] @
     py ''        Include the main points and key information.'' @ [10] @
     py ''        Text to summarize:'' @ [10] @
     py ''        '' @ text @ [10] @
     py ''        ''"

definition AudioTranscriber_summarize ::
  "world \<Rightarrow> transcriber \<Rightarrow> py_str \<Rightarrow> py_str + py_str \<times> usage"
where
  "AudioTranscriber_summarize w t text =
     (let prompt = summary_prompt text;
          input_toks = w_count_tokens w (model_name t) prompt None
      in case w_generate w
                \<lparr>g_model = model_name t, g_system_instruction = None, g_prompt = prompt,
                 g_audio = None, g_temperature = dbl (3 / 10), g_max_output_tokens = 8192\<rparr> of
           Inl e \<Rightarrow> Inl e
         | Inr r \<Rightarrow>
             Inr (response_text r,
                  estimate_cost (model_name t) input_toks (extract_output_tokens r) 0))"

subsection \<open>Inline or upload\<close>

datatype transfer = Inline_path | Upload_path

text \<open>\<^verbatim>\<open>app.py\<close>, line 199: \<^verbatim>\<open>if file_size_mb <= WEB_INLINE_LIMIT_MB\<close>\<close>

definition app_transfer :: "real \<Rightarrow> transfer" where
  "app_transfer size_mb = (if size_mb \<le> WEB_INLINE_LIMIT_MB then Inline_path else Upload_path)"

text \<open>\<^verbatim>\<open>main\<close>, line 517:
  \<^verbatim>\<open>if args.upload or (file_size_mb > MAX_FILE_SIZE_MB and not args.inline)\<close>\<close>

definition main_transfer :: "bool \<Rightarrow> bool \<Rightarrow> real \<Rightarrow> transfer" where
  "main_transfer args_upload args_inline size_mb =
     (if args_upload \<or> (size_mb > MAX_FILE_SIZE_MB \<and> \<not> args_inline) then Upload_path
      else Inline_path)"

definition audio_content_for ::
  "world \<Rightarrow> transfer \<Rightarrow> media_file \<Rightarrow> (py_str + audio_content \<times> audio_content option) option"
where
  "audio_content_for w path f =
     (case path of
        Inline_path \<Rightarrow> Some (Inr (process_inline f, None))
      | Upload_path \<Rightarrow>
          (case upload_file w f of
             None \<Rightarrow> None
           | Some (Inl e) \<Rightarrow> Some (Inl e)
           | Some (Inr content) \<Rightarrow> Some (Inr (content, Some content))))"

subsection \<open>The route /transcribe of app.py\<close>

record transcribe_request =
  youtube_url :: "py_str option"
  generate_summary :: bool
  save_audio :: bool
  model :: "string option"

text \<open>The body of a successful response.  \<open>audio_base64\<close> holds the bytes whose base64
  text the response carries.\<close>

record response_data =
  transcription :: py_str
  video_title :: py_str
  audio_duration_seconds :: real
  estimated_cost :: real
  model_used :: string
  summary :: "py_str option"
  audio_base64 :: "nat list option"

datatype http_response = Json_ok response_data | Json_error nat py_str

fun contains :: "'a list \<Rightarrow> 'a list \<Rightarrow> bool" where
  "contains needle [] = (needle = [])"
| "contains needle (x # xs) = (prefix needle (x # xs) \<or> contains needle xs)"

text \<open>\<^verbatim>\<open>total_cost += usage.get('total_cost', 0)\<close>, the usage dictionary being empty when no
  call has filled it.\<close>

definition add_cost :: "real \<Rightarrow> usage option \<Rightarrow> real" where
  "add_cost cost u = fadd cost (case u of None \<Rightarrow> 0 | Some u' \<Rightarrow> total_cost u')"

text \<open>Lines 208 to 226: the transcription call, the optional summary call, and the cost
  accumulated over them.  The result is the transcription, the summary (\<open>None\<close> when
  none was asked for) and \<^verbatim>\<open>total_cost\<close>.\<close>

definition transcribe_and_summarize ::
  "world \<Rightarrow> transcriber \<Rightarrow> audio_content \<Rightarrow> real \<Rightarrow> bool \<Rightarrow>
   py_str + py_str \<times> py_str option \<times> real"
where
  "transcribe_and_summarize w t content audio_duration want_summary =
     (case AudioTranscriber_transcribe w t content None False None None audio_duration of
        Inl e \<Rightarrow> Inl e
      | Inr (text, t1) \<Rightarrow>
          (let cost = add_cost 0 (last_usage t1)
           in if want_summary then
                (case AudioTranscriber_summarize w t1 text of
                   Inl e \<Rightarrow> Inl e
                 | Inr (s, summary_usage) \<Rightarrow>
                     Inr (text, Some s, add_cost cost (Some summary_usage)))
              else Inr (text, None, cost)))"

text \<open>The \<^verbatim>\<open>try\<close> block of the route (lines 153 to 250), over the locals \<^verbatim>\<open>youtube_url\<close>,
  \<^verbatim>\<open>generate_summary\<close>, \<^verbatim>\<open>save_audio\<close> and \<^verbatim>\<open>model_name\<close>: \<open>Inl\<close> is the message of the
  error response with status 500, \<open>None\<close> an upload that never leaves \<^verbatim>\<open>PROCESSING\<close>.\<close>

definition transcribe_body ::
  "world \<Rightarrow> py_str \<Rightarrow> bool \<Rightarrow> bool \<Rightarrow> string \<Rightarrow> (py_str + response_data) option"
where
  "transcribe_body w url want_summary want_audio chosen_model =
     (case w_download w url of
        Inl e \<Rightarrow> Some (Inl e)
      | Inr f \<Rightarrow>
     (case validate_file f of
        Inl e \<Rightarrow> Some (Inl e)
      | Inr size_mb \<Rightarrow>
     (let audio_duration = get_audio_duration_seconds f;
          t = AudioTranscriber_init chosen_model
      in case w_api_enabled w (transcriber.model_name t) of
        Inl e \<Rightarrow> Some (Inl e)
      | Inr False \<Rightarrow>
          Some (Inl (py (''Gemini API is not enabled. '' @
                         ''Please check your API key and project settings.'')))
      | Inr True \<Rightarrow>
     (case audio_content_for w (app_transfer size_mb) f of
        None \<Rightarrow> None
      | Some (Inl e) \<Rightarrow> Some (Inl e)
      | Some (Inr (content, uploaded_file)) \<Rightarrow>
     (case transcribe_and_summarize w t content audio_duration want_summary of
        Inl e \<Rightarrow> Some (Inl e)
      | Inr (text, s, cost) \<Rightarrow>
          Some (Inr
            \<lparr>transcription = text, video_title = f_stem f,
             audio_duration_seconds = audio_duration,
             estimated_cost = py_round cost 4, model_used = chosen_model,
             summary = (case s of None \<Rightarrow> None | Some s' \<Rightarrow> if s' = [] then None else Some s'),
             audio_base64 = (if want_audio \<and> f_bytes f \<noteq> [] then Some (f_bytes f)
                             else None)\<rparr>))))))"

definition app_transcribe :: "world \<Rightarrow> transcribe_request \<Rightarrow> http_response option" where
  "app_transcribe w req =
     (if API_KEY w = None \<or> API_KEY w = Some [] then
        Some (Json_error 500
          (py (''GEMINI_API_KEY environment variable not set. '' @
               ''Create a .env file with GEMINI_API_KEY=your_key'')))
      else
        (let url = strip (get_default (youtube_url req) []);
             requested = get_default (model req) DEFAULT_MODEL;
             chosen_model = (if requested \<notin> fst ` set AVAILABLE_MODELS then DEFAULT_MODEL
                             else requested)
         in if url = [] then Some (Json_error 400 (py ''Please provide a YouTube URL''))
            else if \<not> (contains (py ''youtube.com'') url \<or> contains (py ''youtu.be'') url) then
              Some (Json_error 400
                (py ''Invalid YouTube URL. Please provide a valid YouTube video URL.''))
            else
              (case transcribe_body w url (generate_summary req) (save_audio req)
                      chosen_model of
                 None \<Rightarrow> None
               | Some (Inl e) \<Rightarrow> Some (Json_error 500 e)
               | Some (Inr body) \<Rightarrow> Some (Json_ok body))))"

subsection \<open>A sample request\<close>

text \<open>A three-byte MP3 of one minute, a file of 150 MB, and a world in which every call
  succeeds: the token counter says 1000, each response carries 2000 output tokens.\<close>

definition demo_file :: media_file where
  "demo_file = \<lparr>f_stem = py ''talk'', f_suffix = ''.mp3'', f_bytes = [73, 68, 51],
                 f_duration_ms = Some 60000\<rparr>"

definition demo_world :: world where
  "demo_world =
     \<lparr>API_KEY = Some ''key'',
      w_download = (\<lambda>url. Inr demo_file),
      w_api_enabled = (\<lambda>m. Inr True),
      w_count_tokens = (\<lambda>m p a. 1000),
      w_upload = (\<lambda>f. Inr (0, [PROCESSING, ACTIVE])),
      w_generate = (\<lambda>c. Inr \<lparr>response_text = py ''hello world'',
                               usage_metadata = Has (Has 2000)\<rparr>)\<rparr>"

definition demo_request :: transcribe_request where
  "demo_request =
     \<lparr>youtube_url = Some (py '' https://youtu.be/abc ''), generate_summary = True,
      save_audio = False, model = Some ''gpt-4''\<rparr>"

definition big_file :: media_file where
  "big_file = \<lparr>f_stem = py ''lecture'', f_suffix = ''.mp3'',
                 f_bytes = replicate 157286400 0, f_duration_ms = Some 9000000\<rparr>"


section \<open>The background-task guard: single flight\<close>

lemma slot_busy_pending:
  "slot_busy s = (\<exists>h. background_task s = Some h \<and> pending h s)"
  by (auto simp: slot_busy_def pending_def split: option.splits)

lemma slot_inv_initial: "slot_inv initial_guard"
  by (simp add: slot_inv_def pending_def initial_guard_def)

lemma pending_create_task:
  "pending h (snd (create_task q g s)\<lparr>background_task := b\<rparr>) =
     (pending h s \<or> h = length (tasks s))"
  by (auto simp: pending_def create_task_def nth_append)

lemma pending_cancel: "pending h (cancel k (s\<lparr>agent_stop_event := e\<rparr>)) = pending h s"
  by (cases "h = k") (auto simp: pending_def cancel_def)

lemma background_task_cancel:
  "background_task (cancel k (s\<lparr>agent_stop_event := e\<rparr>)) = background_task s"
  by (simp add: cancel_def)

lemma execute_tool_state:
  "snd (execute_tool cloud n p g s) = s \<or>
   snd (execute_tool cloud n p g s) =
     cancel (the (background_task s)) (s\<lparr>agent_stop_event := True\<rparr>) \<or>
   (\<not> slot_busy s \<and>
    (\<exists>q sess. snd (execute_tool cloud n p g s) =
       snd (create_task q sess s)\<lparr>background_task := Some (length (tasks s))\<rparr>))"
proof (cases "n = ''stop_computer_task''")
  case True
  then show ?thesis by (simp add: execute_tool_def)
next
  case False
  show ?thesis
  proof (cases "n = ''execute_computer_task''")
    case True
    then show ?thesis
      by (auto simp: execute_tool_def create_task_def split: option.splits)
  next
    case False
    with \<open>n \<noteq> ''stop_computer_task''\<close> show ?thesis
      by (simp add: execute_tool_def)
  qed
qed

lemma slot_inv_execute_tool:
  assumes "slot_inv s"
  shows "slot_inv (snd (execute_tool cloud n p g s))"
proof -
  have idle: "\<not> slot_busy s \<Longrightarrow> \<not> pending h s" for h
    using assms unfolding slot_inv_def slot_busy_pending by blast
  from execute_tool_state [of cloud n p g s] show ?thesis
  proof (elim disjE conjE exE)
    assume "snd (execute_tool cloud n p g s) = s"
    then show ?thesis using assms by simp
  next
    assume "snd (execute_tool cloud n p g s) =
      cancel (the (background_task s)) (s\<lparr>agent_stop_event := True\<rparr>)"
    then show ?thesis using assms
      by (simp add: slot_inv_def pending_cancel background_task_cancel)
  next
    fix q sess
    assume "\<not> slot_busy s" and
      "snd (execute_tool cloud n p g s) =
         snd (create_task q sess s)\<lparr>background_task := Some (length (tasks s))\<rparr>"
    then show ?thesis using idle
      by (simp add: slot_inv_def pending_create_task)
  qed
qed


lemma send_turn_tasks: "tasks (snd (send_turn g m out s)) = tasks s"
  by (simp add: send_turn_def split: send_outcome.splits)

lemma try_body_tasks: "tasks (snd (try_body coro g o1 s)) = tasks s"
  by (simp add: try_body_def send_turn_tasks split: coro_outcome.splits option.splits)

lemma run_and_log_task_tasks: "tasks (snd (run_and_log_task coro q g o1 o2 s)) = tasks s"
proof -
  obtain r s1 where tb: "try_body coro g o1 s = (r, s1)" by (cases "try_body coro g o1 s")
  then have s1: "tasks s1 = tasks s" using try_body_tasks [of coro g o1 s] by simp
  have "tasks (snd (send_turn g m o2 s1)) = tasks s" for m
    by (simp add: send_turn_tasks s1)
  then show ?thesis
    by (cases r; cases "the r")
       (simp_all add: run_and_log_task_def tb s1 split_beta)
qed

lemma pending_mark_done: "pending k (mark_done h s) = (pending k s \<and> k \<noteq> h)"
  by (cases "k = h") (auto simp: pending_def mark_done_def)

lemma slot_inv_unique: "slot_inv s \<Longrightarrow> pending h s \<Longrightarrow> pending k s \<Longrightarrow> k = h"
  unfolding slot_inv_def by (metis option.inject)

lemma slot_inv_guard_step:
  assumes "slot_inv s"
  shows "slot_inv (guard_step cloud s ev)"
proof (cases ev)
  case (Call n p g)
  then show ?thesis using assms by (simp add: slot_inv_execute_tool)
next
  case (Finish h coro o1 o2)
  show ?thesis
  proof (cases "pending h s")
    case True
    let ?s' = "snd (run_and_log_task coro (task_query (tasks s ! h)) (task_session (tasks s ! h)) o1 o2 s)"
    have "pending k ?s' = pending k s" for k
      by (simp add: pending_def run_and_log_task_tasks)
    moreover have "pending k s \<Longrightarrow> k = h" for k
      using assms True by (rule_tac slot_inv_unique) auto
    ultimately have "\<not> pending k (mark_done h ?s')" for k
      by (auto simp: pending_mark_done)
    then show ?thesis using Finish True by (simp add: slot_inv_def)
  next
    case False
    then show ?thesis using Finish assms by simp
  qed
next
  case (Dropped h)
  show ?thesis
  proof (cases "pending h s \<and> task_cancel_requested (tasks s ! h)")
    case True
    have "pending k s \<Longrightarrow> k = h" for k
      using assms True by (rule_tac slot_inv_unique) auto
    then have "\<not> pending k (mark_done h s)" for k
      by (auto simp: pending_mark_done)
    then show ?thesis using Dropped True by (simp add: slot_inv_def)
  next
    case False
    then show ?thesis using Dropped assms by auto
  qed
next
  case Runner_clears
  then show ?thesis using assms by (simp add: slot_inv_def pending_def)
qed

lemma slot_inv_foldl: "slot_inv s \<Longrightarrow> slot_inv (foldl (guard_step cloud) s evs)"
  by (induction evs arbitrary: s) (simp_all add: slot_inv_guard_step)

lemma slot_inv_run_guard: "slot_inv (run_guard cloud evs)"
  by (simp add: run_guard_def slot_inv_foldl slot_inv_initial)

lemma unfinished_pending: "h \<in> set (unfinished s) = pending h s"
  by (auto simp: unfinished_def pending_def)

lemma distinct_unfinished: "distinct (unfinished s)"
  by (simp add: unfinished_def)

lemma slot_inv_unfinished:
  assumes "slot_inv s"
  shows "unfinished s = [] \<or> (\<exists>h. unfinished s = [h] \<and> background_task s = Some h)"
proof (cases "unfinished s")
  case Nil
  then show ?thesis by simp
next
  case (Cons h hs)
  have all: "k \<in> set (unfinished s) \<Longrightarrow> background_task s = Some k" for k
    using assms by (simp add: unfinished_pending slot_inv_def)
  have "background_task s = Some h" using all [of h] Cons by simp
  moreover have "hs = []"
  proof (cases hs)
    case Nil then show ?thesis .
  next
    case (Cons k ks)
    then have "background_task s = Some k" using all [of k] \<open>unfinished s = h # hs\<close> by simp
    with \<open>background_task s = Some h\<close> have "k = h" by simp
    with Cons \<open>unfinished s = h # hs\<close> distinct_unfinished [of s] show ?thesis by simp
  qed
  ultimately show ?thesis using Cons by simp
qed

lemma start_rejected_when_busy:
  "slot_busy s \<Longrightarrow>
     execute_tool cloud ''execute_computer_task'' params genai_session s =
       (Status ''already_running'' ''A task is in progress.'', s)"
  by (simp add: execute_tool_def)

lemma run_guard_one_running:
  "run_guard cloud [Call ''execute_computer_task'' [(''query'', ''search for X'')] (Some 7)] =
     one_running"
  by (simp add: run_guard_def execute_tool_def slot_busy_def initial_guard_def create_task_def
      one_running_def)

lemma slot_busy_one_running: "slot_busy one_running"
  by (simp add: slot_busy_def one_running_def)

lemma not_busy_cleared: "background_task s = None \<Longrightarrow> \<not> slot_busy s"
  by (simp add: slot_busy_def)



text \<open>
  C1.  A call of \<^verbatim>\<open>execute_tool("execute_computer_task", ..)\<close> that finds a task that is
  not done in the global returns the \<^verbatim>\<open>already_running\<close> dictionary and leaves the whole
  state as it was: no task is created, the task in the global and the global itself are
  untouched.  And after any sequence of tool calls and task terminations from the
  initial state, at most one task is not done, and it is the one the global holds.
\<close>

theorem start_while_running_rejected:
  "(slot_busy s \<longrightarrow>
      execute_tool cloud ''execute_computer_task'' params genai_session s =
        (Status ''already_running'' ''A task is in progress.'', s)) \<and>
   (unfinished (run_guard cloud evs) = [] \<or>
    (\<exists>h. unfinished (run_guard cloud evs) = [h] \<and>
         background_task (run_guard cloud evs) = Some h))"
proof (rule conjI)
  show "slot_busy s \<longrightarrow>
      execute_tool cloud ''execute_computer_task'' params genai_session s =
        (Status ''already_running'' ''A task is in progress.'', s)"
    by (simp add: start_rejected_when_busy)
  show "unfinished (run_guard cloud evs) = [] \<or>
    (\<exists>h. unfinished (run_guard cloud evs) = [h] \<and>
         background_task (run_guard cloud evs) = Some h)"
    by (rule slot_inv_unfinished [OF slot_inv_run_guard])
qed

text \<open>The second start of end-to-end scenario 4: one task runs, a second start arrives.\<close>

theorem start_while_running_rejected_witness:
  "slot_busy one_running \<and>
   execute_tool (\<lambda>n p. Json []) ''execute_computer_task'' [(''query'', ''search for Y'')]
     (Some 7) one_running =
     (Status ''already_running'' ''A task is in progress.'', one_running) \<and>
   unfinished
     (run_guard (\<lambda>n p. Json [])
        [Call ''execute_computer_task'' [(''query'', ''search for X'')] (Some 7)]) = [0]"
proof -
  have "unfinished one_running = [0]"
    by (simp add: unfinished_def one_running_def)
  then show ?thesis
    using slot_busy_one_running
      start_while_running_rejected [of one_running "\<lambda>n p. Json []"
        "[(''query'', ''search for Y'')]" "Some 7"
        "[Call ''execute_computer_task'' [(''query'', ''search for X'')] (Some 7)]"]
    by (simp add: run_guard_one_running)
qed








text \<open>
  C3.  The agent run that fails returns the dictionary
  \<^verbatim>\<open>{"status": "error", "summary": ..}\<close> (the \<^verbatim>\<open>except\<close> clause of
  \<^verbatim>\<open>run_computer_agent_task\<close>); the wrapper forwards a summary only when the status is
  \<^verbatim>\<open>success\<close>.  A task is started and its agent run ends that way: the task is done, the
  global is cleared, and no turn has been sent to the conversation.
\<close>

theorem error_result_not_forwarded:
  "run_guard (\<lambda>n p. Json [])
     [Call ''execute_computer_task'' [(''query'', ''search for X'')] (Some 7),
      Finish 0 (Returned (Some [(''status'', ''error''), (''summary'', ''browser crashed'')]))
        SendOk SendOk] =
   \<lparr>background_task = None,
    tasks = [\<lparr>task_query = ''search for X'', task_session = 7, task_done = True,
              task_cancel_requested = False\<rparr>],
    agent_stop_event = False, turns = []\<rparr>"
  by (simp add: run_guard_def execute_tool_def slot_busy_def initial_guard_def create_task_def
      pending_def run_and_log_task_def try_body_def mark_done_def)

section \<open>The translation adapter, the worker and the audio handlers\<close>

lemma strip_blank: "list_all isspace s \<Longrightarrow> strip s = []"
  by (auto simp: strip_def list_all_iff dest: set_dropWhileD)

lemma strip_Nil_iff: "strip s = [] \<longleftrightarrow> list_all isspace s"
proof
  assume e: "strip s = []"
  show "list_all isspace s"
  proof (cases "dropWhile isspace s = []")
    case True
    then show ?thesis by (simp add: list_all_iff)
  next
    case False
    then have "\<not> isspace (hd (dropWhile isspace s))" by (rule hd_dropWhile)
    moreover have "hd (dropWhile isspace s) \<in> set (dropWhile isspace s)"
      using False by simp
    ultimately show ?thesis using e by (auto simp: strip_def)
  qed
qed (rule strip_blank)

text \<open>
  C6.  A text that is empty or made of white space only (\<^verbatim>\<open>str.isspace\<close> holds of every
  code point) makes \<^verbatim>\<open>translate\<close> return the empty string, and no prompt is sent to the
  generative API.
\<close>

theorem translate_blank:
  "list_all isspace text \<Longrightarrow> translate generate_content text target = ([], [])"
  by (simp add: translate_def strip_blank)

theorem translate_blank_witness:
  "list_all isspace [32, 9, 10, 0x3000] \<and>
   translate (\<lambda>prompt. Inr prompt) [32, 9, 10, 0x3000] (py ''Spanish'') = ([], []) \<and>
   translate (\<lambda>prompt. Inr prompt) [] (py ''Spanish'') = ([], [])"
proof -
  have b: "list_all isspace [32, 9, 10, 0x3000]"
    by (simp add: isspace_def)
  have e: "list_all isspace []" by simp
  show ?thesis
    using b translate_blank [OF b, of "\<lambda>prompt. Inr prompt" "py ''Spanish''"]
      translate_blank [OF e, of "\<lambda>prompt. Inr prompt" "py ''Spanish''"]
    by simp
qed

text \<open>Any other text costs exactly one call.\<close>

lemma translate_calls_once:
  "\<not> list_all isspace text \<Longrightarrow> length (snd (translate generate_content text target)) = 1"
  by (simp add: translate_def strip_Nil_iff Let_def)

lemma final_transcripts_Cons:
  "final_transcripts (r # rs) = final_transcripts [r] @ final_transcripts rs"
  by (simp add: final_transcripts_def)

lemma process_result_original:
  "original_text (fst (process_result gc tg ts w r)) =
     original_text (fst w) @ concat (map (\<lambda>t. t @ [32]) (final_transcripts [r]))"
  by (cases "alternatives r") (simp_all add: process_result_def final_transcripts_def Let_def)

lemma process_result_translated:
  "translated_text (fst (process_result gc tg ts w r)) =
     translated_text (fst w) @
       concat (map (\<lambda>t. fst (translate gc t tg) @ [32]) (final_transcripts [r]))"
  by (cases "alternatives r") (simp_all add: process_result_def final_transcripts_def Let_def)

lemma process_result_flag:
  "stream_active (fst (process_result gc tg ts w r)) = stream_active (fst w)"
  by (cases "alternatives r") (simp_all add: process_result_def Let_def)

lemma foldl_process_original:
  "original_text (fst (foldl (process_result gc tg ts) w rs)) =
     original_text (fst w) @ concat (map (\<lambda>t. t @ [32]) (final_transcripts rs))"
proof (induction rs arbitrary: w)
  case Nil
  then show ?case by (simp add: final_transcripts_def)
next
  case (Cons r rs)
  show ?case
    by (simp add: Cons.IH process_result_original final_transcripts_Cons [of r rs])
qed

lemma foldl_process_translated:
  "translated_text (fst (foldl (process_result gc tg ts) w rs)) =
     translated_text (fst w) @
       concat (map (\<lambda>t. fst (translate gc t tg) @ [32]) (final_transcripts rs))"
proof (induction rs arbitrary: w)
  case Nil
  then show ?case by (simp add: final_transcripts_def)
next
  case (Cons r rs)
  show ?case
    by (simp add: Cons.IH process_result_translated final_transcripts_Cons [of r rs])
qed

lemma foldl_process_flag:
  "stream_active (fst (foldl (process_result gc tg ts) w rs)) = stream_active (fst w)"
  by (induction rs arbitrary: w) (simp_all add: process_result_flag)

lemma responses_loop_original:
  "original_text (fst (responses_loop gc tg ts w inputs)) =
     original_text (fst w) @
       concat (map (\<lambda>t. t @ [32]) (finalized (stream_active (fst w)) inputs))"
proof (induction gc tg ts w inputs rule: responses_loop.induct)
  case (2 gc tg ts w results rest)
  then show ?case
    by (simp add: foldl_process_original foldl_process_flag)
qed simp_all

lemma responses_loop_translated:
  "translated_text (fst (responses_loop gc tg ts w inputs)) =
     translated_text (fst w) @
       concat (map (\<lambda>t. fst (translate gc t tg) @ [32])
         (finalized (stream_active (fst w)) inputs))"
proof (induction gc tg ts w inputs rule: responses_loop.induct)
  case (2 gc tg ts w results rest)
  then show ?case
    by (simp add: foldl_process_translated foldl_process_flag)
qed simp_all

lemma finalized_take: "prefix (finalized flag (take n inputs)) (finalized flag inputs)"
proof (induction flag inputs arbitrary: n rule: finalized.induct)
  case (2 flag results rest)
  then show ?case by (cases n) simp_all
next
  case (3 flag e rest)
  then show ?case by (cases n) simp_all
next
  case (4 flag rest)
  then show ?case by (cases n) simp_all
qed simp

lemma prefix_concat_map: "prefix xs ys \<Longrightarrow> prefix (concat (map f xs)) (concat (map f ys))"
  by (auto simp: prefix_def)

text \<open>
  C7.  Whatever the worker meets, the \<^verbatim>\<open>original_text\<close> of its session ends as the text it
  started with followed by every accepted finalized segment, each once and followed by a
  space, in arrival order; \<^verbatim>\<open>translated_text\<close> likewise with the translation of each of
  these segments.  Both fields only grow: what they hold after the first \<open>n\<close> inputs is
  a prefix of what they hold in the end.
\<close>

theorem texts_append_only:
  "original_text (fst (streaming_transcribe gc s inputs)) =
     original_text s @ concat (map (\<lambda>t. t @ [32]) (finalized (stream_active s) inputs)) \<and>
   translated_text (fst (streaming_transcribe gc s inputs)) =
     translated_text s @
       concat (map (\<lambda>t. fst (translate gc t (target_language s)) @ [32])
         (finalized (stream_active s) inputs)) \<and>
   prefix (original_text (fst (streaming_transcribe gc s (take n inputs))))
     (original_text (fst (streaming_transcribe gc s inputs))) \<and>
   prefix (translated_text (fst (streaming_transcribe gc s (take n inputs))))
     (translated_text (fst (streaming_transcribe gc s inputs)))"
  by (simp add: streaming_transcribe_def responses_loop_original responses_loop_translated
      prefix_concat_map finalized_take)

text \<open>Two final segments around an interim one, then a stop request and a late segment.\<close>

theorem texts_append_only_witness:
  "original_text (fst (streaming_transcribe (\<lambda>prompt. Inr (py ''hola''))
      (the (sessions (handle_connect client initial_server) client)\<lparr>stream_active := True\<rparr>)
      [Response [\<lparr>alternatives = [\<lparr>transcript = py ''good'', confidence = 1\<rparr>],
                  is_final = True, result_end_offset = None\<rparr>,
                 \<lparr>alternatives = [\<lparr>transcript = py ''mor'', confidence = 0\<rparr>],
                  is_final = False, result_end_offset = None\<rparr>],
       Response [\<lparr>alternatives = [\<lparr>transcript = py ''morning'', confidence = 1\<rparr>],
                  is_final = True, result_end_offset = None\<rparr>],
       Stop_requested,
       Response [\<lparr>alternatives = [\<lparr>transcript = py ''late'', confidence = 1\<rparr>],
                  is_final = True, result_end_offset = None\<rparr>]])) =
     py ''good morning ''"
  using texts_append_only [of "\<lambda>prompt. Inr (py ''hola'')"
      "the (sessions (handle_connect client initial_server) client)\<lparr>stream_active := True\<rparr>"
      "[Response [\<lparr>alternatives = [\<lparr>transcript = py ''good'', confidence = 1\<rparr>],
                  is_final = True, result_end_offset = None\<rparr>,
                 \<lparr>alternatives = [\<lparr>transcript = py ''mor'', confidence = 0\<rparr>],
                  is_final = False, result_end_offset = None\<rparr>],
       Response [\<lparr>alternatives = [\<lparr>transcript = py ''morning'', confidence = 1\<rparr>],
                  is_final = True, result_end_offset = None\<rparr>],
       Stop_requested,
       Response [\<lparr>alternatives = [\<lparr>transcript = py ''late'', confidence = 1\<rparr>],
                  is_final = True, result_end_offset = None\<rparr>]]" 0]
  by (simp add: handle_connect_def initial_server_def final_transcripts_def py_def)

text \<open>
  C5.  A chunk that arrives after the connection is open and before \<^verbatim>\<open>start_session\<close> is
  put into \<^verbatim>\<open>pending_audio\<close>, since \<^verbatim>\<open>stream_active\<close> is still false.  The start handler
  then resets \<^verbatim>\<open>pending_audio\<close> to the empty list in its \<^verbatim>\<open>update\<close>, before the loop that
  is to replay it: when \<^verbatim>\<open>session_started\<close> is emitted the queue of the worker is empty
  and the chunk is in neither list.
\<close>

theorem buffered_chunk_dropped:
  "map_option pending_audio
     (sessions (handle_audio_data client (Inr [82, 73, 70, 70]) (handle_connect client initial_server)) client) =
     Some [[82, 73, 70, 70]] \<and>
   map_option audio_queue
     (sessions
        (handle_start_session client
           \<lparr>d_source_language = None, d_target_language = None, d_show_timestamps = None,
            d_voice_gender = None\<rparr>
           (handle_audio_data client (Inr [82, 73, 70, 70]) (handle_connect client initial_server))) client) =
     Some [] \<and>
   map_option pending_audio
     (sessions
        (handle_start_session client
           \<lparr>d_source_language = None, d_target_language = None, d_show_timestamps = None,
            d_voice_gender = None\<rparr>
           (handle_audio_data client (Inr [82, 73, 70, 70]) (handle_connect client initial_server))) client) =
     Some [] \<and>
   emits
     (handle_start_session client
        \<lparr>d_source_language = None, d_target_language = None, d_show_timestamps = None,
         d_voice_gender = None\<rparr>
        (handle_audio_data client (Inr [82, 73, 70, 70]) (handle_connect client initial_server))) =
     [(client, Connected client),
      (client, Session_started (py ''en-US'') (py ''Spanish'') False (py ''NEUTRAL''))] \<and>
   map_option audio_queue
     (sessions
        (handle_audio_data client (Inr [100, 97, 116, 97])
           (handle_start_session client
              \<lparr>d_source_language = None, d_target_language = None, d_show_timestamps = None,
               d_voice_gender = None\<rparr>
              (handle_audio_data client (Inr [82, 73, 70, 70]) (handle_connect client initial_server)))) client) =
     Some [[100, 97, 116, 97]]"
  by (simp add: handle_start_session_def handle_audio_data_def handle_connect_def
      initial_server_def get_default_def Let_def)

section \<open>The transcription tool: transfer, token counts, cost, model choice\<close>

lemma in_models: "m \<in> fst ` set AVAILABLE_MODELS \<longleftrightarrow>
   m = ''gemini-2.5-flash'' \<or> m = ''gemini-2.5-pro'' \<or> m = ''gemini-3-pro-preview''"
  by (auto simp: AVAILABLE_MODELS_def)

lemma demo_model: "''gpt-4'' \<notin> fst ` set AVAILABLE_MODELS"
  by (simp add: in_models)

lemma strip_url: "strip (py '' https://youtu.be/abc '') = py ''https://youtu.be/abc''"
  by (simp add: strip_def py_def isspace_def)

lemma contains_url: "contains (py ''youtu.be'') (py ''https://youtu.be/abc'')"
  by (simp add: py_def)

lemmas dbl_eval =
  dbl_def ilog2_def bits.simps pow2_def round_half_even_def fadd_def fmul_def fdiv_def
  py_round_def Let_def

text \<open>The sample request in numbers: about 0.001575 for the transcription, 0.000675 for
  the summary, 0.00225 for both, reported as 0.0022.\<close>

lemma demo_usage:
  "total_cost (estimate_cost ''gemini-2.5-flash'' 1000 2000 60) =
     226981421219473 / 144115188075855872"
  by (simp add: estimate_cost_def lookup_model_def AVAILABLE_MODELS_def dbl_eval)

lemma demo_summary_usage:
  "total_cost (estimate_cost ''gemini-2.5-flash'' 1000 2000 0) =
     6225776124876973 / 9223372036854775808"
  by (simp add: estimate_cost_def lookup_model_def AVAILABLE_MODELS_def dbl_eval)

lemma demo_sum:
  "fadd (fadd 0 (226981421219473 / 144115188075855872))
     (6225776124876973 / 9223372036854775808) =
   5188146770730811 / 2305843009213693952"
  by (simp add: dbl_eval)

lemma demo_rounded:
  "py_round (5188146770730811 / 2305843009213693952) 4 = dbl (11 / 5000)"
  by (simp add: dbl_eval)

lemma demo_reported: "dbl (11 / 5000) = 5072854620270127 / 2305843009213693952"
  by (simp add: dbl_eval)

text \<open>Rounding shows: with five seconds of audio the total is 0.0007499999999999999, not
  0.00075, and is reported as 0.0007.\<close>

lemma five_seconds_usage:
  "total_cost (estimate_cost ''gemini-2.5-flash'' 1000 2000 5) =
     6917529027641081 / 9223372036854775808 \<and>
   py_round (fadd 0 (total_cost (estimate_cost ''gemini-2.5-flash'' 1000 2000 5))) 4 =
     dbl (7 / 10000)"
  by (simp add: estimate_cost_def lookup_model_def AVAILABLE_MODELS_def dbl_eval)

lemma demo_validate: "validate_file demo_file = Inr (3 / 1048576)"
  by (simp add: validate_file_def demo_file_def SUPPORTED_FORMATS_def file_size_mb_def)

lemma demo_duration: "get_audio_duration_seconds demo_file = 60"
  by (simp add: get_audio_duration_seconds_def demo_file_def dbl_eval)

lemma demo_transfer: "app_transfer (3 / 1048576) = Inline_path"
  by (simp add: app_transfer_def WEB_INLINE_LIMIT_MB_def)

lemma demo_init: "AudioTranscriber_init ''gemini-2.5-flash'' =
   \<lparr>model_name = ''gemini-2.5-flash'', model_info = lookup_model ''gemini-2.5-flash'', last_usage = None\<rparr>"
  by (simp add: AudioTranscriber_init_def in_models Let_def)

lemma size_mb_eq: "length (f_bytes f) = length (f_bytes g) \<Longrightarrow> file_size_mb f = file_size_mb g"
  by (simp add: file_size_mb_def)

lemma big_size: "file_size_mb big_file = 150"
  by (simp add: file_size_mb_def big_file_def)

lemma demo_size: "file_size_mb demo_file = 3 / 1048576"
  by (simp add: file_size_mb_def demo_file_def)

lemma map_of_models:
  "map_of AVAILABLE_MODELS m = Some info \<Longrightarrow> lookup_model m = info"
  by (simp add: lookup_model_def)

lemma transcribe_sets_usage:
  "AudioTranscriber_transcribe w t content si ut st en d = Inr (text, t1) \<Longrightarrow>
     \<exists>u. last_usage t1 = Some u"
  by (auto simp: AudioTranscriber_transcribe_def Let_def split: sum.splits)

lemma demo_transcribe_call:
  "AudioTranscriber_transcribe demo_world (AudioTranscriber_init ''gemini-2.5-flash'')
     (process_inline demo_file) None False None None 60 =
   Inr (py ''hello world'',
        (AudioTranscriber_init ''gemini-2.5-flash'')
          \<lparr>last_usage := Some (estimate_cost ''gemini-2.5-flash'' 1000 2000 60)\<rparr>)"
  by (simp add: AudioTranscriber_transcribe_def demo_world_def demo_init
      extract_output_tokens_def Let_def)

lemma demo_summarize_call:
  "AudioTranscriber_summarize demo_world
     ((AudioTranscriber_init ''gemini-2.5-flash'')
        \<lparr>last_usage := Some (estimate_cost ''gemini-2.5-flash'' 1000 2000 60)\<rparr>)
     (py ''hello world'') =
   Inr (py ''hello world'', estimate_cost ''gemini-2.5-flash'' 1000 2000 0)"
  by (simp add: AudioTranscriber_summarize_def demo_world_def demo_init
      extract_output_tokens_def Let_def)

lemma map_of_pro:
  "map_of AVAILABLE_MODELS ''gemini-2.5-pro'' =
     Some \<lparr>info_name = ''Gemini 2.5 Pro'', max_output_tokens = 65536,
            price_input_per_1k = dbl (125 / 100000), price_output_per_1k = dbl (5 / 1000),
            price_audio_per_second = dbl (25 / 100000)\<rparr>"
  by (simp add: AVAILABLE_MODELS_def)

lemma pro_usage:
  "total_cost (estimate_cost ''gemini-2.5-pro'' 1000 2000 60) =
     7566047373982433 / 288230376151711744"
  by (simp add: estimate_cost_def lookup_model_def AVAILABLE_MODELS_def dbl_eval)

lemma demo_tas:
  "transcribe_and_summarize demo_world (AudioTranscriber_init ''gemini-2.5-flash'')
     (process_inline demo_file) 60 True =
   Inr (py ''hello world'', Some (py ''hello world''),
        5188146770730811 / 2305843009213693952)"
  by (simp add: transcribe_and_summarize_def demo_transcribe_call demo_summarize_call
      add_cost_def demo_usage demo_summary_usage demo_sum)

lemma demo_body:
  "transcribe_body demo_world (py ''https://youtu.be/abc'') True False ''gemini-2.5-flash'' =
     Some (Inr \<lparr>transcription = py ''hello world'', video_title = py ''talk'',
       audio_duration_seconds = 60, estimated_cost = dbl (11 / 5000),
       model_used = ''gemini-2.5-flash'', summary = Some (py ''hello world''),
       audio_base64 = None\<rparr>)"
proof -
  have dl: "w_download demo_world (py ''https://youtu.be/abc'') = Inr demo_file"
    by (simp add: demo_world_def)
  have en: "w_api_enabled demo_world ''gemini-2.5-flash'' = Inr True"
    by (simp add: demo_world_def)
  have st: "f_stem demo_file = py ''talk''" by (simp add: demo_file_def)
  have ne: "py ''hello world'' \<noteq> []" by (simp add: py_def)
  show ?thesis
    by (simp add: transcribe_body_def dl demo_validate demo_duration demo_init en
        demo_transfer audio_content_for_def
        demo_tas [unfolded demo_init] st ne demo_rounded)
qed

lemma demo_run:
  "app_transcribe demo_world demo_request =
     Some (Json_ok \<lparr>transcription = py ''hello world'', video_title = py ''talk'',
       audio_duration_seconds = 60, estimated_cost = dbl (11 / 5000),
       model_used = ''gemini-2.5-flash'', summary = Some (py ''hello world''),
       audio_base64 = None\<rparr>)"
proof -
  have k: "API_KEY demo_world = Some ''key''" by (simp add: demo_world_def)
  have u: "youtube_url demo_request = Some (py '' https://youtu.be/abc '')"
    "model demo_request = Some ''gpt-4''" "generate_summary demo_request"
    "\<not> save_audio demo_request"
    by (simp_all add: demo_request_def)
  have ne: "py ''https://youtu.be/abc'' \<noteq> []" by (simp add: py_def)
  show ?thesis
    by (simp add: app_transcribe_def k u get_default_def strip_url contains_url demo_model ne
        DEFAULT_MODEL_def demo_body)
qed



lemma transcribe_body_model_used:
  "transcribe_body w url ws wa cm = Some (Inr body) \<Longrightarrow> model_used body = cm"
  by (auto simp: transcribe_body_def Let_def
      split: sum.splits option.splits bool.splits prod.splits)

lemma default_in_models: "DEFAULT_MODEL \<in> fst ` set AVAILABLE_MODELS"
  by (simp add: in_models DEFAULT_MODEL_def)

lemma app_transcribe_model_used:
  assumes "app_transcribe w req = Some (Json_ok body)"
  shows "model_used body =
    (if get_default (model req) DEFAULT_MODEL \<notin> fst ` set AVAILABLE_MODELS then DEFAULT_MODEL
     else get_default (model req) DEFAULT_MODEL)"
proof -
  let ?cm = "if get_default (model req) DEFAULT_MODEL \<notin> fst ` set AVAILABLE_MODELS
     then DEFAULT_MODEL else get_default (model req) DEFAULT_MODEL"
  let ?url = "strip (get_default (youtube_url req) [])"
  from assms have
    "transcribe_body w ?url (generate_summary req) (save_audio req) ?cm = Some (Inr body)"
    by (simp add: app_transcribe_def Let_def split: if_splits option.splits sum.splits)
  then show ?thesis by (rule transcribe_body_model_used)
qed

text \<open>
  C4.  The route of \<^verbatim>\<open>app.py\<close> sends a file inline when its size is at most
  \<^verbatim>\<open>WEB_INLINE_LIMIT_MB\<close> and uploads it when the size is larger; it has no override.  The
  command line sends a file inline when its size is at most \<^verbatim>\<open>MAX_FILE_SIZE_MB\<close> and
  uploads it when the size is larger, unless \<^verbatim>\<open>--upload\<close> forces the upload or \<^verbatim>\<open>--inline\<close>
  (without \<^verbatim>\<open>--upload\<close>) forces the inline path.  Two files of the same length get the
  same decision, whatever their bytes.
\<close>

theorem transfer_by_size:
  "(file_size_mb f \<le> WEB_INLINE_LIMIT_MB \<longrightarrow>
      app_transfer (file_size_mb f) = Inline_path \<and>
      audio_content_for w (app_transfer (file_size_mb f)) f = Some (Inr (process_inline f, None))) \<and>
   (WEB_INLINE_LIMIT_MB < file_size_mb f \<longrightarrow> app_transfer (file_size_mb f) = Upload_path) \<and>
   (file_size_mb f \<le> MAX_FILE_SIZE_MB \<and> \<not> args_upload \<longrightarrow>
      main_transfer args_upload args_inline (file_size_mb f) = Inline_path) \<and>
   (MAX_FILE_SIZE_MB < file_size_mb f \<and> \<not> args_inline \<longrightarrow>
      main_transfer args_upload args_inline (file_size_mb f) = Upload_path) \<and>
   (args_upload \<longrightarrow> main_transfer args_upload args_inline (file_size_mb f) = Upload_path) \<and>
   (args_inline \<and> \<not> args_upload \<longrightarrow>
      main_transfer args_upload args_inline (file_size_mb f) = Inline_path) \<and>
   (length (f_bytes f) = length (f_bytes g) \<longrightarrow>
      app_transfer (file_size_mb f) = app_transfer (file_size_mb g) \<and>
      main_transfer args_upload args_inline (file_size_mb f) =
        main_transfer args_upload args_inline (file_size_mb g))"
proof -
  have "length (f_bytes f) = length (f_bytes g) \<longrightarrow>
      app_transfer (file_size_mb f) = app_transfer (file_size_mb g) \<and>
      main_transfer args_upload args_inline (file_size_mb f) =
        main_transfer args_upload args_inline (file_size_mb g)"
    using size_mb_eq [of f g] by auto
  then show ?thesis
    by (simp add: app_transfer_def main_transfer_def audio_content_for_def)
qed

theorem transfer_by_size_witness:
  "file_size_mb demo_file \<le> WEB_INLINE_LIMIT_MB \<and>
   app_transfer (file_size_mb demo_file) = Inline_path \<and>
   WEB_INLINE_LIMIT_MB < file_size_mb big_file \<and>
   app_transfer (file_size_mb big_file) = Upload_path \<and>
   MAX_FILE_SIZE_MB < file_size_mb big_file \<and>
   main_transfer False False (file_size_mb big_file) = Upload_path \<and>
   main_transfer False True (file_size_mb big_file) = Inline_path \<and>
   main_transfer False False (file_size_mb demo_file) = Inline_path \<and>
   main_transfer True False (file_size_mb demo_file) = Upload_path \<and>
   length (f_bytes demo_file) = length (f_bytes (demo_file\<lparr>f_bytes := [1, 2, 3]\<rparr>)) \<and>
   app_transfer (file_size_mb demo_file) =
     app_transfer (file_size_mb (demo_file\<lparr>f_bytes := [1, 2, 3]\<rparr>))"
proof -
  have small: "file_size_mb demo_file \<le> WEB_INLINE_LIMIT_MB"
    "file_size_mb demo_file \<le> MAX_FILE_SIZE_MB"
    by (simp_all add: demo_size WEB_INLINE_LIMIT_MB_def MAX_FILE_SIZE_MB_def)
  have big: "WEB_INLINE_LIMIT_MB < file_size_mb big_file"
    "MAX_FILE_SIZE_MB < file_size_mb big_file"
    by (simp_all add: big_size WEB_INLINE_LIMIT_MB_def MAX_FILE_SIZE_MB_def)
  have same: "length (f_bytes demo_file) = length (f_bytes (demo_file\<lparr>f_bytes := [1, 2, 3]\<rparr>))"
    by (simp add: demo_file_def)
  show ?thesis
    using small big same
      transfer_by_size [of demo_file demo_world False False "demo_file\<lparr>f_bytes := [1, 2, 3]\<rparr>"]
      transfer_by_size [of demo_file demo_world True False demo_file]
      transfer_by_size [of big_file demo_world False False big_file]
      transfer_by_size [of big_file demo_world False True big_file]
    by simp
qed

text \<open>
  C8.  A response that has no \<^verbatim>\<open>usage_metadata\<close> attribute and a text of eight characters:
  the count taken is 0, not the estimate 8 // 4 = 2, and 0 is what \<^verbatim>\<open>transcribe\<close> records in
  \<^verbatim>\<open>last_usage\<close>.  The estimate sits in the \<^verbatim>\<open>except\<close> clause, reached only when reading the
  metadata raises.
\<close>

theorem absent_metadata_counts_zero:
  "extract_output_tokens \<lparr>response_text = py ''abcdefgh'', usage_metadata = Missing\<rparr> = 0 \<and>
   int (length (py ''abcdefgh'')) div 4 = 2 \<and>
   map_sum id (\<lambda>(text, t). map_option output_tokens (last_usage t))
     (AudioTranscriber_transcribe
        (demo_world\<lparr>w_generate :=
           \<lambda>c. Inr \<lparr>response_text = py ''abcdefgh'', usage_metadata = Missing\<rparr>\<rparr>)
        (AudioTranscriber_init ''gemini-2.5-flash'') (process_inline demo_file)
        None False None None 60) = Inr (Some 0)"
  by (simp add: extract_output_tokens_def py_def AudioTranscriber_transcribe_def demo_world_def
      estimate_cost_def Let_def)

lemma transcribe_body_cost:
  assumes "transcribe_body w url ws wa cm = Some (Inr body)"
  shows "\<exists>f content up text s cost.
           w_download w url = Inr f \<and>
           audio_content_for w (app_transfer (file_size_mb f)) f = Some (Inr (content, up)) \<and>
           transcribe_and_summarize w (AudioTranscriber_init cm) content
             (get_audio_duration_seconds f) ws = Inr (text, s, cost) \<and>
           estimated_cost body = py_round cost 4"
  using assms
  by (auto simp: transcribe_body_def validate_file_def Let_def
      split: sum.splits option.splits bool.splits prod.splits if_splits)

lemma app_transcribe_body:
  assumes "app_transcribe w req = Some (Json_ok body)"
  shows "transcribe_body w (strip (get_default (youtube_url req) []))
           (generate_summary req) (save_audio req) (model_used body) = Some (Inr body)"
proof -
  let ?cm = "if get_default (model req) DEFAULT_MODEL \<notin> fst ` set AVAILABLE_MODELS
     then DEFAULT_MODEL else get_default (model req) DEFAULT_MODEL"
  let ?url = "strip (get_default (youtube_url req) [])"
  from assms have b:
    "transcribe_body w ?url (generate_summary req) (save_audio req) ?cm = Some (Inr body)"
    by (simp add: app_transcribe_def Let_def split: if_splits option.splits sum.splits)
  then have "model_used body = ?cm" by (rule transcribe_body_model_used)
  with b show ?thesis by simp
qed

text \<open>
  C9, as the code has it.  For a model of the price table, the total of
  \<^verbatim>\<open>estimate_cost\<close> is \<^verbatim>\<open>(input_tokens / 1000) * price_input_per_1k + (output_tokens / 1000)
  * price_output_per_1k + audio_seconds * price_audio_per_second\<close> with the prices of that
  model, computed in doubles in this order.  The \<^verbatim>\<open>total_cost\<close> that the route
  accumulates is \<^verbatim>\<open>0.0\<close> plus the total of the transcription call, plus the total of the
  summary call when a summary is asked for.  What a successful response reports as
  \<^verbatim>\<open>estimated_cost\<close> is that sum rounded to four decimals, \<^verbatim>\<open>round(total_cost, 4)\<close>.
\<close>

theorem cost_formula_and_rounded_sum:
  "(map_of AVAILABLE_MODELS m = Some info \<longrightarrow>
      total_cost (estimate_cost m i o' a) =
        fadd (fadd (fmul (fdiv (real_of_int i) 1000) (price_input_per_1k info))
                   (fmul (fdiv (real_of_int o') 1000) (price_output_per_1k info)))
             (fmul a (price_audio_per_second info))) \<and>
   (AudioTranscriber_transcribe w t content None False None None d = Inr (text, t1) \<longrightarrow>
      (\<exists>u. last_usage t1 = Some u \<and>
         transcribe_and_summarize w t content d False =
           Inr (text, None, fadd 0 (total_cost u)) \<and>
         (\<forall>s su. AudioTranscriber_summarize w t1 text = Inr (s, su) \<longrightarrow>
            transcribe_and_summarize w t content d True =
              Inr (text, Some s, fadd (fadd 0 (total_cost u)) (total_cost su))))) \<and>
   (app_transcribe w req = Some (Json_ok body) \<longrightarrow>
      (\<exists>f content' up text' s' cost.
         w_download w (strip (get_default (youtube_url req) [])) = Inr f \<and>
         audio_content_for w (app_transfer (file_size_mb f)) f = Some (Inr (content', up)) \<and>
         transcribe_and_summarize w (AudioTranscriber_init (model_used body)) content'
           (get_audio_duration_seconds f) (generate_summary req) = Inr (text', s', cost) \<and>
         estimated_cost body = py_round cost 4))"
proof (intro conjI impI)
  assume "map_of AVAILABLE_MODELS m = Some info"
  then show "total_cost (estimate_cost m i o' a) =
        fadd (fadd (fmul (fdiv (real_of_int i) 1000) (price_input_per_1k info))
                   (fmul (fdiv (real_of_int o') 1000) (price_output_per_1k info)))
             (fmul a (price_audio_per_second info))"
    by (simp add: estimate_cost_def map_of_models Let_def)
next
  assume tr: "AudioTranscriber_transcribe w t content None False None None d = Inr (text, t1)"
  then obtain u where u: "last_usage t1 = Some u"
    using transcribe_sets_usage by blast
  show "\<exists>u. last_usage t1 = Some u \<and>
         transcribe_and_summarize w t content d False =
           Inr (text, None, fadd 0 (total_cost u)) \<and>
         (\<forall>s su. AudioTranscriber_summarize w t1 text = Inr (s, su) \<longrightarrow>
            transcribe_and_summarize w t content d True =
              Inr (text, Some s, fadd (fadd 0 (total_cost u)) (total_cost su)))"
    using tr u by (simp add: transcribe_and_summarize_def add_cost_def)
next
  assume "app_transcribe w req = Some (Json_ok body)"
  then show "\<exists>f content' up text' s' cost.
         w_download w (strip (get_default (youtube_url req) [])) = Inr f \<and>
         audio_content_for w (app_transfer (file_size_mb f)) f = Some (Inr (content', up)) \<and>
         transcribe_and_summarize w (AudioTranscriber_init (model_used body)) content'
           (get_audio_duration_seconds f) (generate_summary req) = Inr (text', s', cost) \<and>
         estimated_cost body = py_round cost 4"
    by (rule transcribe_body_cost [OF app_transcribe_body])
qed

text \<open>The price of one call with the second model, and the sample request.\<close>

theorem cost_formula_and_rounded_sum_witness:
  "map_of AVAILABLE_MODELS ''gemini-2.5-pro'' =
     Some \<lparr>info_name = ''Gemini 2.5 Pro'', max_output_tokens = 65536,
            price_input_per_1k = dbl (125 / 100000), price_output_per_1k = dbl (5 / 1000),
            price_audio_per_second = dbl (25 / 100000)\<rparr> \<and>
   total_cost (estimate_cost ''gemini-2.5-pro'' 1000 2000 60) =
     7566047373982433 / 288230376151711744 \<and>
   AudioTranscriber_transcribe demo_world (AudioTranscriber_init ''gemini-2.5-flash'')
     (process_inline demo_file) None False None None 60 =
     Inr (py ''hello world'',
          (AudioTranscriber_init ''gemini-2.5-flash'')
            \<lparr>last_usage := Some (estimate_cost ''gemini-2.5-flash'' 1000 2000 60)\<rparr>) \<and>
   transcribe_and_summarize demo_world (AudioTranscriber_init ''gemini-2.5-flash'')
     (process_inline demo_file) 60 True =
     Inr (py ''hello world'', Some (py ''hello world''),
          5188146770730811 / 2305843009213693952) \<and>
   app_transcribe demo_world demo_request =
     Some (Json_ok \<lparr>transcription = py ''hello world'', video_title = py ''talk'',
       audio_duration_seconds = 60, estimated_cost = dbl (11 / 5000),
       model_used = ''gemini-2.5-flash'', summary = Some (py ''hello world''),
       audio_base64 = None\<rparr>) \<and>
   py_round (5188146770730811 / 2305843009213693952) 4 = dbl (11 / 5000)"
  using map_of_pro demo_transcribe_call demo_summarize_call demo_run demo_rounded
    cost_formula_and_rounded_sum [of "''gemini-2.5-pro''"
      "\<lparr>info_name = ''Gemini 2.5 Pro'', max_output_tokens = 65536,
        price_input_per_1k = dbl (125 / 100000), price_output_per_1k = dbl (5 / 1000),
        price_audio_per_second = dbl (25 / 100000)\<rparr>" 1000 2000 60
      demo_world "AudioTranscriber_init ''gemini-2.5-flash''" "process_inline demo_file" 60
      "py ''hello world''"
      "(AudioTranscriber_init ''gemini-2.5-flash'')
          \<lparr>last_usage := Some (estimate_cost ''gemini-2.5-flash'' 1000 2000 60)\<rparr>"
      demo_request
      "\<lparr>transcription = py ''hello world'', video_title = py ''talk'',
       audio_duration_seconds = 60, estimated_cost = dbl (11 / 5000),
       model_used = ''gemini-2.5-flash'', summary = Some (py ''hello world''),
       audio_base64 = None\<rparr>"]
  by (simp add: pro_usage demo_usage demo_summary_usage demo_sum)

text \<open>
  C9, as the claim has it, fails in its last part.  On the sample request the two calls
  are estimated at about 0.001575 and 0.000675; their sum, which the route accumulates,
  is about 0.00225; the total the response reports is 0.0022.
\<close>

theorem reported_total_is_not_the_sum:
  "app_transcribe demo_world demo_request =
     Some (Json_ok \<lparr>transcription = py ''hello world'', video_title = py ''talk'',
       audio_duration_seconds = 60, estimated_cost = dbl (11 / 5000),
       model_used = ''gemini-2.5-flash'', summary = Some (py ''hello world''),
       audio_base64 = None\<rparr>) \<and>
   fadd (fadd 0 (total_cost (estimate_cost ''gemini-2.5-flash'' 1000 2000 60)))
     (total_cost (estimate_cost ''gemini-2.5-flash'' 1000 2000 0)) =
     5188146770730811 / 2305843009213693952 \<and>
   dbl (11 / 5000) \<noteq> 5188146770730811 / 2305843009213693952"
  by (simp add: demo_run demo_usage demo_summary_usage demo_sum demo_reported)

text \<open>
  C10.  A request that names a model outside \<^verbatim>\<open>AVAILABLE_MODELS\<close> is answered exactly as
  the same request naming \<^verbatim>\<open>DEFAULT_MODEL\<close>: no error comes from the name, a successful
  response has \<^verbatim>\<open>model_used\<close> equal to the default, and \<^verbatim>\<open>AudioTranscriber.__init__\<close>
  makes the same substitution.
\<close>

theorem unknown_model_defaults:
  assumes "m \<notin> fst ` set AVAILABLE_MODELS"
  shows "app_transcribe w (req\<lparr>model := Some m\<rparr>) =
           app_transcribe w (req\<lparr>model := Some DEFAULT_MODEL\<rparr>) \<and>
         (\<forall>body. app_transcribe w (req\<lparr>model := Some m\<rparr>) = Some (Json_ok body) \<longrightarrow>
            model_used body = DEFAULT_MODEL) \<and>
         AudioTranscriber_init m = AudioTranscriber_init DEFAULT_MODEL"
proof (intro conjI allI impI)
  show "app_transcribe w (req\<lparr>model := Some m\<rparr>) =
           app_transcribe w (req\<lparr>model := Some DEFAULT_MODEL\<rparr>)"
    using assms default_in_models
    by (simp add: app_transcribe_def get_default_def Let_def cong: if_cong)
next
  fix body
  assume "app_transcribe w (req\<lparr>model := Some m\<rparr>) = Some (Json_ok body)"
  from app_transcribe_model_used [OF this] assms
  show "model_used body = DEFAULT_MODEL" by (simp add: get_default_def)
next
  show "AudioTranscriber_init m = AudioTranscriber_init DEFAULT_MODEL"
    using assms default_in_models by (simp add: AudioTranscriber_init_def)
qed

theorem unknown_model_defaults_witness:
  "''gpt-4'' \<notin> fst ` set AVAILABLE_MODELS \<and>
   app_transcribe demo_world (demo_request\<lparr>model := Some ''gpt-4''\<rparr>) =
     Some (Json_ok \<lparr>transcription = py ''hello world'', video_title = py ''talk'',
       audio_duration_seconds = 60, estimated_cost = dbl (11 / 5000),
       model_used = DEFAULT_MODEL, summary = Some (py ''hello world''),
       audio_base64 = None\<rparr>) \<and>
   app_transcribe demo_world (demo_request\<lparr>model := Some DEFAULT_MODEL\<rparr>) =
     app_transcribe demo_world (demo_request\<lparr>model := Some ''gpt-4''\<rparr>)"
proof -
  have same: "demo_request\<lparr>model := Some ''gpt-4''\<rparr> = demo_request"
    by (simp add: demo_request_def)
  show ?thesis
    using demo_model unknown_model_defaults [OF demo_model, of demo_world demo_request]
    by (simp add: same demo_run DEFAULT_MODEL_def)
qed

end
